theory Spec2Isabelle
  imports Complex_Main
begin

section \<open>JavaScript values read by the script\<close>

text \<open>
  The script \<^verbatim>\<open>static/js/logic.js\<close> reads three numeric slots of every GeoJSON feature:
  \<^verbatim>\<open>geometry.coordinates[2]\<close> (the depth), \<^verbatim>\<open>properties.mag\<close> and \<^verbatim>\<open>properties.time\<close>.
  A slot of a parsed JSON document holds a finite number, \<^verbatim>\<open>null\<close>, or is absent
  (\<^verbatim>\<open>undefined\<close>); arithmetic on an absent slot yields \<^verbatim>\<open>NaN\<close>. Finite numbers are read
  as the reals they denote: the script compares them with the literals \<^verbatim>\<open>0\<close> and \<^verbatim>\<open>0.5\<close>
  and multiplies by \<^verbatim>\<open>4\<close>, a power of two. Infinities, strings and objects in a numeric slot
  are outside the model.
\<close>

datatype jsnum = NaN | Fin real

datatype jsval = Undefined | Null | Number jsnum

abbreviation num :: "real \<Rightarrow> jsval" where
  "num r \<equiv> Number (Fin r)"

text \<open>\<^verbatim>\<open>ToNumber\<close>: \<^verbatim>\<open>undefined\<close> becomes \<^verbatim>\<open>NaN\<close>, \<^verbatim>\<open>null\<close> becomes \<^verbatim>\<open>0\<close>.\<close>

fun ToNumber :: "jsval \<Rightarrow> jsnum" where
  "ToNumber Undefined = NaN"
| "ToNumber Null = Fin 0"
| "ToNumber (Number n) = n"

text \<open>The operator \<^verbatim>\<open><\<close> on numbers: a comparison with \<^verbatim>\<open>NaN\<close> is false.\<close>

fun num_less :: "jsnum \<Rightarrow> jsnum \<Rightarrow> bool" where
  "num_less (Fin x) (Fin y) = (x < y)"
| "num_less _ _ = False"

fun num_times :: "jsnum \<Rightarrow> jsnum \<Rightarrow> jsnum" where
  "num_times (Fin x) (Fin y) = Fin (x * y)"
| "num_times _ _ = NaN"

definition js_less :: "jsval \<Rightarrow> jsval \<Rightarrow> bool" where
  "js_less a b = num_less (ToNumber a) (ToNumber b)"

text \<open>\<^verbatim>\<open>a > b\<close> is \<^verbatim>\<open>b < a\<close>.\<close>

definition js_greater :: "jsval \<Rightarrow> jsval \<Rightarrow> bool" where
  "js_greater a b = js_less b a"

definition js_times :: "jsval \<Rightarrow> jsval \<Rightarrow> jsval" where
  "js_times a b = Number (num_times (ToNumber a) (ToNumber b))"

text \<open>Reading an array out of range yields \<^verbatim>\<open>undefined\<close>.\<close>

definition js_index :: "jsval list \<Rightarrow> nat \<Rightarrow> jsval" where
  "js_index xs i = (if i < length xs then xs ! i else Undefined)"

section \<open>The feed\<close>

record geometry =
  coordinates :: "jsval list"

record properties =
  mag :: jsval
  place :: string
  time :: jsval

record feature =
  geometry :: geometry
  properties :: properties


section \<open>Depth extraction and marker radius\<close>

text \<open>
  \<^verbatim>\<open>function getDepths(features) {
    return features.map(element => {
        let value = element.geometry.coordinates[2];
        return value > 0 ? value: 0.01;
    });
}\<close>
\<close>

definition getDepths :: "feature list \<Rightarrow> jsval list" where
  "getDepths fs =
     map (\<lambda>element.
            let value = js_index (coordinates (geometry element)) 2
            in if js_greater value (num 0) then value else num 0.01) fs"

text \<open>
  \<^verbatim>\<open>function radialMagnitude(magnitude) {
    if (magnitude < 0.5) { return 2; } else { return magnitude * 4; }
}\<close>
\<close>

definition radialMagnitude :: "jsval \<Rightarrow> jsval" where
  "radialMagnitude magnitude =
     (if js_less magnitude (num 0.5) then num 2 else js_times magnitude (num 4))"

text \<open>The depth slot of a feature, as both \<^verbatim>\<open>getDepths\<close> and \<^verbatim>\<open>_pointToLayer\<close> read it.\<close>

abbreviation source_depth :: "feature \<Rightarrow> jsval" where
  "source_depth f \<equiv> js_index (coordinates (geometry f)) 2"

section \<open>The libraries the script calls\<close>

text \<open>
  The script delegates to chroma.js (\<^verbatim>\<open>chroma.limits\<close>, \<^verbatim>\<open>chroma.scale\<close>), to the host's
  number and date formatting and to Leaflet. None of that code belongs to the repository. What
  chroma.js and the host's formatters compute is a parameter of the model: a \<open>library\<close> gives,
  for each call, the value it returns. \<^verbatim>\<open>chroma.limits\<close> may throw, and so may
  \<^verbatim>\<open>dateFormat.format(new Date(time))\<close> (a \<^verbatim>\<open>RangeError\<close> on an invalid date); the other
  calls return. The two checks of Leaflet that end a pass, its position check and its container
  check, are written out below.

  \<^verbatim>\<open>chroma.scale(colors).domain(d)\<close> builds a scale object; it is represented by the two
  arguments it was built from, and \<open>chroma_apply\<close> is the call \<^verbatim>\<open>chromaScale(depth)\<close> on it.
\<close>

datatype error = LibraryError string | TypeError string | RangeError string

record chroma_scale =
  scale_colors :: "string list"
  scale_domain :: "jsnum list"

record numberFormatOptions =
  maximumFractionDigits :: nat
  minimumFractionDigits :: nat

record 'c library =
  chroma_limits :: "jsval list \<Rightarrow> string \<Rightarrow> int \<Rightarrow> error + jsnum list"
  chroma_apply :: "chroma_scale \<Rightarrow> jsval \<Rightarrow> 'c"
  chroma_hex :: "'c \<Rightarrow> string"
  toLocaleString :: "numberFormatOptions \<Rightarrow> jsnum \<Rightarrow> string"
  toString :: "jsval \<Rightarrow> string"
  dateFormat :: "jsval \<Rightarrow> error + string"


section \<open>Module state\<close>

text \<open>
  \<^verbatim>\<open>let gradientColors = ["#9AFF9A", "#5AFF5A", "#28C428", "#FF7878", "#FF3232", "#FF0000"];
let colorDomain;
let chromaScale;\<close>
\<close>

record module_state =
  gradientColors :: "string list"
  colorDomain :: "jsnum list option"
  chromaScale :: "chroma_scale option"

definition initial_state :: module_state where
  "initial_state =
     \<lparr>gradientColors = [''#9AFF9A'', ''#5AFF5A'', ''#28C428'', ''#FF7878'', ''#FF3232'', ''#FF0000''],
      colorDomain = None,
      chromaScale = None\<rparr>"

section \<open>Markers\<close>

text \<open>
  \<^verbatim>\<open>function colorDepth(depth) { return chromaScale(depth).hex(); }\<close>
  Calling the variable before \<^verbatim>\<open>init\<close> has assigned it is a \<^verbatim>\<open>TypeError\<close>.
\<close>

definition colorDepth :: "'c library \<Rightarrow> module_state \<Rightarrow> jsval \<Rightarrow> error + string" where
  "colorDepth lib st depth =
     (case chromaScale st of
        None \<Rightarrow> Inl (TypeError ''chromaScale is not a function'')
      | Some sc \<Rightarrow> Inr (chroma_hex lib (chroma_apply lib sc depth)))"

record circleMarker =
  latlng :: "jsval \<times> jsval"
  color :: string
  fillColor :: string
  fillOpacity :: real
  stroke :: bool
  radius :: jsval
  popup :: "string option"

text \<open>
  \<^verbatim>\<open>_pointToLayer\<close>, written \<open>pointToLayer\<close> here:
  \<^verbatim>\<open>function _pointToLayer(feature, latLong) {
    return L.circleMarker(latLong, {
        color: colorDepth(feature.geometry.coordinates[2]),
        fillColor: colorDepth(feature.geometry.coordinates[2]),
        fillOpacity: 0.8,
        stroke: false,
        radius: radialMagnitude(feature.properties.mag),
    })
}\<close>
\<close>

definition pointToLayer ::
  "'c library \<Rightarrow> module_state \<Rightarrow> feature \<Rightarrow> jsval \<times> jsval \<Rightarrow> error + circleMarker" where
  "pointToLayer lib st feature latLong =
     (case colorDepth lib st (js_index (coordinates (geometry feature)) 2) of
        Inl e \<Rightarrow> Inl e
      | Inr c \<Rightarrow>
          (case colorDepth lib st (js_index (coordinates (geometry feature)) 2) of
             Inl e \<Rightarrow> Inl e
           | Inr fc \<Rightarrow>
               Inr \<lparr>latlng = latLong,
                    color = c,
                    fillColor = fc,
                    fillOpacity = 0.8,
                    stroke = False,
                    radius = radialMagnitude (mag (properties feature)),
                    popup = None\<rparr>))"

text \<open>A line break of a template literal followed by the indentation of the next line.\<close>

definition br :: "nat \<Rightarrow> string" where
  "br n = CHR 0x0A # replicate n (CHR '' '')"





section \<open>Legend\<close>

text \<open>\<^verbatim>\<open>Array.prototype.join\<close> on strings.\<close>

fun join :: "string \<Rightarrow> string list \<Rightarrow> string" where
  "join sep [] = []"
| "join sep [x] = x"
| "join sep (x # y # ys) = x @ sep @ join sep (y # ys)"

text \<open>
  The loop of \<^verbatim>\<open>createLegend\<close>:
  \<^verbatim>\<open>colorDomain.forEach((value, index) => {
    let formattedValue = index == 0 ? "0.01 +"
        : value.toLocaleString(undefined, { maximumFractionDigits: 2, minimumFractionDigits: 2 });
    htmlLI.push("<li>" + formattedValue + "</li>");
});\<close>
  \<open>index\<close> counts the elements already visited and \<open>htmlLI\<close> is the array built so far.
\<close>

fun legendItems :: "'c library \<Rightarrow> jsnum list \<Rightarrow> nat \<Rightarrow> string list \<Rightarrow> string list" where
  "legendItems lib [] index htmlLI = htmlLI"
| "legendItems lib (v # rest) index htmlLI =
     (let formattedValue =
            (if index = 0 then ''0.01 +''
             else toLocaleString lib \<lparr>maximumFractionDigits = 2, minimumFractionDigits = 2\<rparr> v)
      in legendItems lib rest (index + 1) (htmlLI @ [''<li>'' @ formattedValue @ ''</li>'']))"

record legend =
  position :: string
  className :: string
  innerHTML :: string

text \<open>
  \<^verbatim>\<open>createLegend\<close> with its \<^verbatim>\<open>onAdd\<close> callback, which runs when the legend is added to
  the map. \<^verbatim>\<open>colorDomain.forEach\<close> on an unassigned variable is a \<^verbatim>\<open>TypeError\<close>.
\<close>

definition createLegend :: "'c library \<Rightarrow> module_state \<Rightarrow> error + legend" where
  \<open>createLegend lib st =
     (case colorDomain st of
        None \<Rightarrow> Inl (TypeError ''colorDomain is undefined'')
      | Some d \<Rightarrow>
          (let htmlLI = legendItems lib d 0 []
           in Inr \<lparr>position = ''bottomright'',
                   className = ''legend'',
                   innerHTML =
                     ''<h3 class="legend_title">Depth (km)</h3>'' @ br 24
                     @ ''<div class="data_container">'' @ br 28
                     @ ''<div class="gradient" style="background: linear-gradient(''
                     @ join '', '' (gradientColors st) @ '')"></div>'' @ br 28
                     @ ''<div class="gradient_values">'' @ br 32
                     @ ''<ul>'' @ br 36
                     @ join [] htmlLI @ br 32
                     @ ''</ul>'' @ br 28
                     @ ''</div>'' @ br 24
                     @ ''</div>''\<rparr>))\<close>

section \<open>Map assembly\<close>











section \<open>The render pass\<close>




section \<open>Sample inputs\<close>

text \<open>A point feature with the given depth and magnitude.\<close>

definition quake :: "real \<Rightarrow> real \<Rightarrow> feature" where
  "quake depth magnitude =
     \<lparr>geometry = \<lparr>coordinates = [num (-122), num 37, num depth]\<rparr>,
      properties = \<lparr>mag = num magnitude, place = ''10km NE of Somewhere'',
                    time = num 1700000000000\<rparr>\<rparr>"

text \<open>
  A stand-in for the libraries, for running the model on sample inputs only:
  \<^verbatim>\<open>chroma.limits\<close> answers \<open>r\<close> whatever it is asked, a color is the depth it was asked
  for, the formatters print fixed patterns, and a time that is not a number is an invalid
  date. No statement about the script depends on it.
\<close>

definition test_library :: "(error + jsnum list) \<Rightarrow> jsval library" where
  "test_library r =
     \<lparr>chroma_limits = (\<lambda>data mode n. r),
      chroma_apply = (\<lambda>sc depth. depth),
      chroma_hex = (\<lambda>c. case c of
                            Number (Fin d) \<Rightarrow> if d \<le> 0 then ''#000000'' else ''#9aff9a''
                          | _ \<Rightarrow> ''#cccccc''),
      toLocaleString = (\<lambda>opts v. ''#.'' @ replicate (minimumFractionDigits opts) (CHR ''#'')),
      toString = (\<lambda>v. ''?''),
      dateFormat = (\<lambda>t. if ToNumber t = NaN then Inl (RangeError ''Invalid time value'')
                         else Inr ''Nov 14, 2023, 10:13 PM'')\<rparr>"

section \<open>The legend labels as specified\<close>

text \<open>
  The labels in the words of the specification: the first boundary is shown as the literal
  floor label, every other boundary is formatted with exactly two fraction digits.
\<close>

definition spec_legend_labels :: "'c library \<Rightarrow> jsnum list \<Rightarrow> string list" where
  "spec_legend_labels lib d =
     (case d of
        [] \<Rightarrow> []
      | v # vs \<Rightarrow> ''0.01 +'' #
          map (toLocaleString lib \<lparr>maximumFractionDigits = 2, minimumFractionDigits = 2\<rparr>) vs)"

section \<open>Depth extraction\<close>

lemma clamp_cases:
  "(if js_greater v (num 0) then v else num 0.01) =
     (case v of Number (Fin d) \<Rightarrow> if 0 < d then num d else num 0.01 | _ \<Rightarrow> num 0.01)"
  by (cases v rule: ToNumber.cases) (auto simp: js_greater_def js_less_def split: jsnum.splits)

lemma clamp_positive:
  "\<exists>x. (if js_greater v (num 0) then v else num 0.01) = num x \<and> 0 < x \<and>
      (\<forall>d. v = num d \<longrightarrow> x = (if 0 < d \<and> d < 0.01 then d else max d 0.01))"
proof (cases "\<exists>d. v = num d \<and> 0 < d")
  case True
  then obtain d where d: "v = num d" "0 < d" by blast
  have "(if js_greater v (num 0) then v else num 0.01) = num d"
    using d by (simp add: js_greater_def js_less_def)
  moreover have "d = (if 0 < d \<and> d < 0.01 then d else max d 0.01)"
    using d by (simp add: max_def)
  ultimately show ?thesis using d by auto
next
  case False
  then have "\<not> js_greater v (num 0)"
    by (cases v) (auto simp: js_greater_def js_less_def elim!: num_less.elims)
  then have "(if js_greater v (num 0) then v else num 0.01) = num 0.01" by simp
  moreover have "\<forall>d. v = num d \<longrightarrow> (0.01::real) = (if 0 < d \<and> d < 0.01 then d else max d 0.01)"
    using False by (auto simp: max_def)
  moreover have "(0::real) < 0.01" by simp
  ultimately show ?thesis by blast
qed

lemma getDepths_nth:
  "i < length fs \<Longrightarrow>
   getDepths fs ! i =
     (if js_greater (source_depth (fs ! i)) (num 0) then source_depth (fs ! i) else num 0.01)"
  by (simp add: getDepths_def Let_def)

text \<open>
  C1. For every sequence of features, \<^verbatim>\<open>getDepths\<close> returns one depth per feature, in the
  same order; the depth at each position is the feature's source depth \<open>d\<close> when \<open>d > 0\<close>
  and \<open>0.01\<close> otherwise (zero, negative, \<^verbatim>\<open>null\<close>, \<^verbatim>\<open>NaN\<close> or absent).
\<close>

theorem getDepths_pointwise:
  "length (getDepths fs) = length fs \<and>
   (\<forall>i < length fs. getDepths fs ! i =
       (case source_depth (fs ! i) of
          Number (Fin d) \<Rightarrow> if 0 < d then num d else num 0.01
        | _ \<Rightarrow> num 0.01))"
  by (simp add: getDepths_def clamp_cases)

theorem getDepths_pointwise_witness:
  "length (getDepths [quake 10 1, quake 0 1, quake (-5) 1]) = 3 \<and>
   getDepths [quake 10 1, quake 0 1, quake (-5) 1] ! 0 = num 10 \<and>
   getDepths [quake 10 1, quake 0 1, quake (-5) 1] ! 1 = num 0.01 \<and>
   getDepths [quake 10 1, quake 0 1, quake (-5) 1] ! 2 = num 0.01"
proof -
  let ?fs = "[quake 10 1, quake 0 1, quake (-5) 1]"
  note p = getDepths_pointwise [of ?fs]
  have len: "length (getDepths ?fs) = 3" using p by simp
  have at: "i < 3 \<Longrightarrow> getDepths ?fs ! i =
       (case source_depth (?fs ! i) of
          Number (Fin d) \<Rightarrow> if 0 < d then num d else num 0.01
        | _ \<Rightarrow> num 0.01)" for i
    using p by simp
  have "getDepths ?fs ! 0 = num 10"
    using at [of 0] by (simp add: quake_def js_index_def)
  moreover have "getDepths ?fs ! 1 = num 0.01"
    using at [of 1] by (simp add: quake_def js_index_def)
  moreover have "getDepths ?fs ! 2 = num 0.01"
    using at [of 2] by (simp add: quake_def js_index_def)
  ultimately show ?thesis using len by simp
qed

text \<open>
  C2, as stated, fails: a source depth of \<open>0.005\<close> is positive, so \<^verbatim>\<open>getDepths\<close> keeps
  it; the result is neither \<open>max(0.005, 0.01)\<close> nor at least \<open>0.01\<close>.
\<close>

theorem getDepths_not_max:
  "getDepths [quake 0.005 1] = [num 0.005] \<and>
   getDepths [quake 0.005 1] \<noteq> [num (max 0.005 0.01)] \<and>
   \<not> (0.01 \<le> (0.005::real))"
  by (simp add: getDepths_def quake_def js_index_def js_greater_def js_less_def)

text \<open>
  C2, amended. Every depth \<^verbatim>\<open>getDepths\<close> returns is a strictly positive number. For a
  source depth \<open>d\<close> it is \<open>max(d, 0.01)\<close>, except for \<open>0 < d < 0.01\<close>, where it is \<open>d\<close>
  itself.
\<close>

theorem getDepths_positive:
  "\<forall>i < length fs. \<exists>x. getDepths fs ! i = num x \<and> 0 < x \<and>
      (\<forall>d. source_depth (fs ! i) = num d \<longrightarrow>
           x = (if 0 < d \<and> d < 0.01 then d else max d 0.01))"
proof (intro allI impI)
  fix i
  assume i: "i < length fs"
  show "\<exists>x. getDepths fs ! i = num x \<and> 0 < x \<and>
          (\<forall>d. source_depth (fs ! i) = num d \<longrightarrow>
               x = (if 0 < d \<and> d < 0.01 then d else max d 0.01))"
    unfolding getDepths_nth [OF i] by (rule clamp_positive)
qed

theorem getDepths_positive_witness:
  "\<exists>x. getDepths [quake 70 2, quake (-3) 2] ! 1 = num x \<and> 0 < x \<and> x = max (-3) 0.01"
proof -
  let ?fs = "[quake 70 2, quake (-3) 2]"
  have i: "1 < length ?fs" by simp
  have sd: "source_depth (?fs ! 1) = num (-3)" by (simp add: quake_def js_index_def)
  obtain x where x: "getDepths ?fs ! 1 = num x" "0 < x"
      "\<forall>d. source_depth (?fs ! 1) = num d \<longrightarrow> x = (if 0 < d \<and> d < 0.01 then d else max d 0.01)"
    using getDepths_positive [of ?fs] i by blast
  from x(3) sd have "x = (if (0::real) < -3 \<and> (-3::real) < 0.01 then -3 else max (-3) 0.01)"
    by blast
  then have "x = max (-3) 0.01" by simp
  with x(1,2) show ?thesis by blast
qed

section \<open>Marker radius\<close>

text \<open>
  C3. For every magnitude \<open>m\<close>, \<^verbatim>\<open>radialMagnitude\<close> returns \<open>2\<close> when \<open>m < 0.5\<close> and
  \<open>4 m\<close> when \<open>m \<ge> 0.5\<close>; at the boundary, \<^verbatim>\<open>radialMagnitude(0.5)\<close> is \<open>2\<close>.
\<close>

theorem radialMagnitude_cases:
  "(m < 0.5 \<longrightarrow> radialMagnitude (num m) = num 2) \<and>
   (0.5 \<le> m \<longrightarrow> radialMagnitude (num m) = num (4 * m)) \<and>
   radialMagnitude (num 0.5) = num 2"
  by (simp add: radialMagnitude_def js_less_def js_times_def)

theorem radialMagnitude_cases_witness:
  "radialMagnitude (num 0.3) = num 2 \<and> radialMagnitude (num 6) = num 24"
  using radialMagnitude_cases [of "0.3"] radialMagnitude_cases [of 6] by simp

text \<open>
  C9. For every magnitude \<open>m\<close>, negative ones included, \<^verbatim>\<open>radialMagnitude(m)\<close> is a number
  of at least \<open>2\<close>, and the function is monotone: \<open>m1 \<le> m2\<close> gives
  \<^verbatim>\<open>radialMagnitude(m1)\<close> \<open>\<le>\<close> \<^verbatim>\<open>radialMagnitude(m2)\<close>.
\<close>

theorem radialMagnitude_floor_mono:
  "(\<exists>r. radialMagnitude (num m) = num r \<and> 2 \<le> r) \<and>
   (\<forall>m1 m2. m1 \<le> m2 \<longrightarrow>
      (\<exists>r1 r2. radialMagnitude (num m1) = num r1 \<and> radialMagnitude (num m2) = num r2
         \<and> r1 \<le> r2))"
  by (auto simp add: radialMagnitude_def js_less_def js_times_def)

theorem radialMagnitude_floor_mono_witness:
  "(-3::real) \<le> 6 \<and>
   (\<exists>r1 r2. radialMagnitude (num (-3)) = num r1 \<and> radialMagnitude (num 6) = num r2 \<and> r1 \<le> r2)"
proof -
  have h: "(-3::real) \<le> 6" by simp
  from radialMagnitude_floor_mono [of 0] h
  have "\<exists>r1 r2. radialMagnitude (num (-3)) = num r1 \<and> radialMagnitude (num 6) = num r2 \<and> r1 \<le> r2"
    by blast
  with h show ?thesis by blast
qed

text \<open>
  A magnitude that is not a number: \<^verbatim>\<open>null\<close> compares as \<open>0\<close> and gets the floor radius,
  an absent magnitude compares false and yields \<^verbatim>\<open>NaN\<close>.
\<close>

lemma radialMagnitude_not_a_number:
  "radialMagnitude Null = num 2 \<and> radialMagnitude Undefined = Number NaN"
  by (simp add: radialMagnitude_def js_less_def js_times_def)

section \<open>Markers\<close>

lemma pointToLayer_defined:
  "chromaScale st = Some sc \<Longrightarrow>
   pointToLayer lib st f ll =
     Inr \<lparr>latlng = ll,
          color = chroma_hex lib (chroma_apply lib sc (source_depth f)),
          fillColor = chroma_hex lib (chroma_apply lib sc (source_depth f)),
          fillOpacity = 0.8,
          stroke = False,
          radius = radialMagnitude (mag (properties f)),
          popup = None\<rparr>"
  by (simp add: pointToLayer_def colorDepth_def)

text \<open>
  C6. Once the color scale is assigned, \<^verbatim>\<open>_pointToLayer\<close> builds a marker for every
  feature: fill color and stroke color are both the scale applied to the feature's depth
  (\<^verbatim>\<open>chromaScale(depth).hex()\<close>), the stroke is off, the fill opacity is \<open>0.8\<close>, and the
  radius is \<^verbatim>\<open>radialMagnitude\<close> of the feature's magnitude.
\<close>

theorem pointToLayer_marker:
  assumes "chromaScale st = Some sc"
  shows "\<exists>m. pointToLayer lib st f ll = Inr m \<and>
           latlng m = ll \<and>
           fillColor m = chroma_hex lib (chroma_apply lib sc (source_depth f)) \<and>
           color m = chroma_hex lib (chroma_apply lib sc (source_depth f)) \<and>
           \<not> stroke m \<and>
           fillOpacity m = 0.8 \<and>
           radius m = radialMagnitude (mag (properties f))"
  using pointToLayer_defined [OF assms, of lib f ll] by simp

theorem pointToLayer_marker_witness:
  "\<exists>m. pointToLayer (test_library (Inr []))
          (initial_state\<lparr>chromaScale := Some \<lparr>scale_colors = [''#9AFF9A'', ''#FF0000''],
                                               scale_domain = [Fin 1, Fin 100]\<rparr>\<rparr>)
          (quake 35 6) (num 37, num (-122)) = Inr m \<and>
        fillColor m = ''#9aff9a'' \<and> color m = ''#9aff9a'' \<and> \<not> stroke m \<and>
        fillOpacity m = 0.8 \<and> radius m = num 24"
proof -
  let ?sc = "\<lparr>scale_colors = [''#9AFF9A'', ''#FF0000''], scale_domain = [Fin 1, Fin 100]\<rparr>"
  let ?st = "initial_state\<lparr>chromaScale := Some ?sc\<rparr>"
  have a: "chromaScale ?st = Some ?sc" by simp
  have sd: "source_depth (quake 35 6) = num 35" by (simp add: quake_def js_index_def)
  have hx: "chroma_hex (test_library (Inr []))
              (chroma_apply (test_library (Inr [])) ?sc (num 35)) = ''#9aff9a''"
    by (simp add: test_library_def)
  have r: "radialMagnitude (mag (properties (quake 35 6))) = num 24"
    by (simp add: quake_def radialMagnitude_def js_less_def js_times_def)
  from pointToLayer_marker [OF a, of "test_library (Inr [])" "quake 35 6" "(num 37, num (-122))"]
  show ?thesis unfolding sd hx r by blast
qed

text \<open>
  C10. The color of a marker is computed from the raw \<^verbatim>\<open>geometry.coordinates[2]\<close>, not from
  the depth \<^verbatim>\<open>getDepths\<close> extracted for the same feature. For a raw depth \<open>d \<le> 0\<close> the
  scale is therefore asked for a value below \<open>0.01\<close>, which \<^verbatim>\<open>getDepths\<close> reported as
  \<open>0.01\<close> and which lies below every depth the scale's domain was computed from.
\<close>

theorem marker_color_from_raw_depth:
  assumes "chromaScale st = Some sc"
  shows "(\<exists>m. pointToLayer lib st f ll = Inr m \<and>
            color m = chroma_hex lib (chroma_apply lib sc (js_index (coordinates (geometry f)) 2)) \<and>
            fillColor m = chroma_hex lib (chroma_apply lib sc (js_index (coordinates (geometry f)) 2))) \<and>
         (\<forall>d. js_index (coordinates (geometry f)) 2 = num d \<and> d \<le> 0 \<longrightarrow>
            d < 0.01 \<and>
            getDepths [f] = [num 0.01] \<and>
            getDepths [f] \<noteq> [js_index (coordinates (geometry f)) 2] \<and>
            (\<forall>fs. \<forall>i < length fs. \<exists>x. getDepths fs ! i = num x \<and> d < x))"
proof (intro conjI allI impI)
  show "\<exists>m. pointToLayer lib st f ll = Inr m \<and>
            color m = chroma_hex lib (chroma_apply lib sc (source_depth f)) \<and>
            fillColor m = chroma_hex lib (chroma_apply lib sc (source_depth f))"
    using pointToLayer_defined [OF assms, of lib f ll] by simp
next
  fix d
  assume "source_depth f = num d \<and> d \<le> 0"
  then have d: "source_depth f = num d" "d \<le> 0" by simp_all
  show "d < 0.01" using d(2) by simp
  show c: "getDepths [f] = [num 0.01]"
    using d by (simp add: getDepths_def js_greater_def js_less_def)
  show "getDepths [f] \<noteq> [source_depth f]"
    unfolding c using d by simp
  fix fs :: "feature list" and i
  assume i: "i < length fs"
  obtain x where x: "getDepths fs ! i = num x" "0 < x"
    using clamp_positive [of "source_depth (fs ! i)"] unfolding getDepths_nth [OF i] by blast
  from x(2) d(2) have "d < x" by simp
  with x(1) show "\<exists>x. getDepths fs ! i = num x \<and> d < x" by blast
qed

theorem marker_color_from_raw_depth_witness:
  "(\<exists>m. pointToLayer (test_library (Inr []))
           (initial_state\<lparr>chromaScale := Some \<lparr>scale_colors = [''#9AFF9A'', ''#FF0000''],
                                                scale_domain = [Fin 0.01, Fin 100]\<rparr>\<rparr>)
           (quake (-5) 0.3) (num 37, num (-122)) = Inr m \<and>
         color m = ''#000000'' \<and> fillColor m = ''#000000'') \<and>
   (-5::real) < 0.01 \<and>
   getDepths [quake (-5) 0.3] = [num 0.01]"
proof -
  let ?sc = "\<lparr>scale_colors = [''#9AFF9A'', ''#FF0000''], scale_domain = [Fin 0.01, Fin 100]\<rparr>"
  let ?st = "initial_state\<lparr>chromaScale := Some ?sc\<rparr>"
  let ?f = "quake (-5) 0.3"
  have a: "chromaScale ?st = Some ?sc" by simp
  have sd: "source_depth ?f = num (-5)" by (simp add: quake_def js_index_def)
  have hx: "chroma_hex (test_library (Inr []))
              (chroma_apply (test_library (Inr [])) ?sc (num (-5))) = ''#000000''"
    by (simp add: test_library_def)
  note t = marker_color_from_raw_depth
             [OF a, of "test_library (Inr [])" ?f "(num 37, num (-122))"]
  have "\<exists>m. pointToLayer (test_library (Inr [])) ?st ?f (num 37, num (-122)) = Inr m \<and>
          color m = ''#000000'' \<and> fillColor m = ''#000000''"
    using t unfolding sd hx by blast
  moreover have "(-5::real) < 0.01 \<and> getDepths [?f] = [num 0.01]"
    using t sd by simp
  ultimately show ?thesis by blast
qed

section \<open>Legend\<close>

lemma legendItems_later:
  "legendItems lib d (Suc n) acc =
     acc @ map (\<lambda>v. ''<li>''
                  @ toLocaleString lib \<lparr>maximumFractionDigits = 2, minimumFractionDigits = 2\<rparr> v
                  @ ''</li>'') d"
  by (induction d arbitrary: n acc) simp_all

lemma legendItems_labels:
  "legendItems lib d 0 [] = map (\<lambda>l. ''<li>'' @ l @ ''</li>'') (spec_legend_labels lib d)"
  by (cases d) (simp_all add: spec_legend_labels_def legendItems_later)


lemma join_empty: "join [] xs = concat xs"
proof (induction xs)
  case Nil
  show ?case by simp
next
  case (Cons x xs)
  then show ?case by (cases xs) simp_all
qed

lemma createLegend_defined:
  assumes "colorDomain st = Some d"
  shows \<open>createLegend lib st =
     Inr \<lparr>position = ''bottomright'',
          className = ''legend'',
          innerHTML =
            ''<h3 class="legend_title">Depth (km)</h3>''
            @ (br 24 @ ''<div class="data_container">'' @ br 28
               @ ''<div class="gradient" style="background: linear-gradient(''
               @ join '', '' (gradientColors st) @ '')"></div>'' @ br 28
               @ ''<div class="gradient_values">'' @ br 32 @ ''<ul>'' @ br 36)
            @ concat (map (\<lambda>l. ''<li>'' @ l @ ''</li>'') (spec_legend_labels lib d))
            @ (br 32 @ ''</ul>'' @ br 28 @ ''</div>'' @ br 24 @ ''</div>'')\<rparr>\<close>
  using assms by (simp add: createLegend_def legendItems_labels join_empty)

text \<open>
  C5. For every boundary sequence, the legend starts with the title \<^verbatim>\<open>Depth (km)\<close> and
  lists one item per boundary, in order: the first is the literal \<^verbatim>\<open>0.01 +\<close> whatever the
  boundary's value, every other one is the boundary formatted with exactly two fraction digits.
\<close>

theorem createLegend_content:
  assumes "colorDomain st = Some d"
  shows \<open>\<exists>leg pre post. createLegend lib st = Inr leg \<and>
           innerHTML leg = ''<h3 class="legend_title">Depth (km)</h3>'' @ pre
              @ concat (map (\<lambda>l. ''<li>'' @ l @ ''</li>'') (spec_legend_labels lib d)) @ post\<close>
  unfolding createLegend_defined [OF assms] by (simp del: append_assoc append.simps) blast

theorem createLegend_content_witness:
  \<open>\<exists>leg pre post.
      createLegend (test_library (Inr []))
        (initial_state\<lparr>colorDomain := Some [Fin 0.003, Fin 1.5, Fin 70]\<rparr>) = Inr leg \<and>
      innerHTML leg = ''<h3 class="legend_title">Depth (km)</h3>'' @ pre
         @ ''<li>0.01 +</li><li>#.##</li><li>#.##</li>'' @ post\<close>
proof -
  let ?d = "[Fin 0.003, Fin 1.5, Fin 70]"
  let ?st = "initial_state\<lparr>colorDomain := Some ?d\<rparr>"
  have a: "colorDomain ?st = Some ?d" by simp
  have l: "concat (map (\<lambda>l. ''<li>'' @ l @ ''</li>'') (spec_legend_labels (test_library (Inr [])) ?d))
             = ''<li>0.01 +</li><li>#.##</li><li>#.##</li>''"
    by (simp add: spec_legend_labels_def test_library_def numeral_2_eq_2)
  show ?thesis
    using createLegend_content [OF a, of "test_library (Inr [])"] unfolding l .
qed

section \<open>The render pass\<close>














end
